theory Spec2Isabelle
  imports Main "HOL-Library.AList"
begin

section \<open>Values, dictionaries and errors\<close>

text \<open>
  The values the pipeline handles are the values \<^verbatim>\<open>json.loads\<close> produces. A Python
  \<^verbatim>\<open>dict\<close> keeps its keys in insertion order, so it is an association list with
  distinct keys. Numbers are Python's unbounded integers; floating-point numbers are
  outside the value domain of this development. A Python \<^verbatim>\<open>str\<close> is a \<open>string\<close>
  whose characters are the code points below 256.
\<close>

datatype json =
    JNull
  | JBool bool
  | JInt int
  | JStr string
  | JArr "json list"
  | JObj "(string \<times> json) list"

type_synonym pydict = "(string \<times> json) list"

text \<open>
  Every \<^verbatim>\<open>raise\<close> of the source is a value. The source raises plain
  \<^verbatim>\<open>Exception\<close>s told apart by their message; the constructors name them after the
  error taxonomy. The last four are the interpreter's own exceptions.
\<close>

datatype error =
    ModelUnavailable
  | NoJsonFound
  | MissingKeys
  | UnknownTool
  | SchemaViolation
  | UnconfiguredTool
  | PyTypeError
  | PyAttributeError
  | PyValueError
  | PyKeyError

definition dict_keys :: "pydict \<Rightarrow> string set" where
  "dict_keys d = fst ` set d"

text \<open>\<^verbatim>\<open>d.get(k, default)\<close>\<close>

definition dict_get :: "pydict \<Rightarrow> string \<Rightarrow> json \<Rightarrow> json" where
  "dict_get d k dflt = (case map_of d k of None \<Rightarrow> dflt | Some v \<Rightarrow> v)"

text \<open>\<^verbatim>\<open>d[k] = v\<close>: an existing key keeps its place, a new key goes last.\<close>

definition dict_set :: "string \<Rightarrow> json \<Rightarrow> pydict \<Rightarrow> pydict" where
  "dict_set k v d = AList.update k v d"

text \<open>\<^verbatim>\<open>d.setdefault(k, v)\<close>: stores only when the key is absent (a key bound to
  \<^verbatim>\<open>None\<close> is present).\<close>

definition setdefault :: "string \<Rightarrow> json \<Rightarrow> pydict \<Rightarrow> pydict" where
  "setdefault k v d = (case map_of d k of None \<Rightarrow> dict_set k v d | Some _ \<Rightarrow> d)"

section \<open>ResponseExtractor\<close>

text \<open>\<^verbatim>\<open>text[a:b]\<close> for \<open>0 \<le> a\<close>, \<open>0 \<le> b\<close>.\<close>

definition slice :: "string \<Rightarrow> nat \<Rightarrow> nat \<Rightarrow> string" where
  "slice s a b = take (b - a) (drop a s)"

text \<open>
  The loop of \<^verbatim>\<open>_extract_first_json\<close> over \<^verbatim>\<open>enumerate(text)\<close>, with the two loop
  variables \<^verbatim>\<open>start\<close> and \<^verbatim>\<open>stack\<close> (top of the stack at the head). The JSON parser
  \<^verbatim>\<open>json.loads\<close> is the parameter \<open>loads\<close>: \<open>None\<close> when it raises.
\<close>

fun scan_json ::
  "(string \<Rightarrow> json option) \<Rightarrow> string \<Rightarrow> (nat \<times> char) list \<Rightarrow> nat option \<Rightarrow> string list
     \<Rightarrow> error + json" where
  "scan_json loads text [] start stack = Inl NoJsonFound"
| "scan_json loads text ((i, ch) # rest) start stack =
     (if ch = CHR ''{'' then
        scan_json loads text rest (if start = None then Some i else start) (''{'' # stack)
      else if ch = CHR ''}'' then
        (if stack \<noteq> [] then
           (case (tl stack, start) of
              ([], Some s) \<Rightarrow>
                (case loads (slice text s (i + 1)) of
                   Some v \<Rightarrow> Inr v
                 | None \<Rightarrow> scan_json loads text rest None [])
            | (stack', _) \<Rightarrow> scan_json loads text rest start stack')
         else scan_json loads text rest start stack)
      else scan_json loads text rest start stack)"

definition extract_first_json :: "(string \<Rightarrow> json option) \<Rightarrow> string \<Rightarrow> error + json" where
  "extract_first_json loads text = scan_json loads text (enumerate 0 text) None []"

text \<open>
  The top-level brace spans of a text, left to right: a span opens at a \<open>{\<close> met at
  depth zero and closes at the \<open>}\<close> that brings the depth back to zero. Every brace
  character counts, wherever it stands; a \<open>}\<close> at depth zero is skipped; a span that
  never closes is not a span. \<open>cur\<close> is the span being read, if any, and \<open>d\<close> its depth.
\<close>

fun spans_from :: "string \<Rightarrow> string option \<Rightarrow> nat \<Rightarrow> string list" where
  "spans_from [] cur d = []"
| "spans_from (c # cs) None d =
     (if c = CHR ''{'' then spans_from cs (Some [c]) 1 else spans_from cs None 0)"
| "spans_from (c # cs) (Some acc) d =
     (if c = CHR ''{'' then spans_from cs (Some (acc @ [c])) (Suc d)
      else if c = CHR ''}'' then
        (if d \<le> 1 then (acc @ [c]) # spans_from cs None 0
         else spans_from cs (Some (acc @ [c])) (d - 1))
      else spans_from cs (Some (acc @ [c])) d)"

definition brace_spans :: "string \<Rightarrow> string list" where
  "brace_spans text = spans_from text None 0"

text \<open>The value of the first candidate that parses, \<^verbatim>\<open>NoJsonFound\<close> when none does.\<close>

definition first_parsed :: "(string \<Rightarrow> json option) \<Rightarrow> string list \<Rightarrow> error + json" where
  "first_parsed loads cands =
     (case List.find (\<lambda>c. loads c \<noteq> None) cands of
        None \<Rightarrow> Inl NoJsonFound
      | Some c \<Rightarrow> (case loads c of Some v \<Rightarrow> Inr v | None \<Rightarrow> Inl NoJsonFound))"

text \<open>A text is brace-balanced when no prefix closes more braces than it opened and the
  whole text closes all of them.\<close>

fun balanced_from :: "string \<Rightarrow> nat \<Rightarrow> bool" where
  "balanced_from [] d = (d = 0)"
| "balanced_from (c # cs) d =
     (if c = CHR ''{'' then balanced_from cs (Suc d)
      else if c = CHR ''}'' then 0 < d \<and> balanced_from cs (d - 1)
      else balanced_from cs d)"

definition brace_balanced :: "string \<Rightarrow> bool" where
  "brace_balanced s = balanced_from s 0"

section \<open>A model of \<^verbatim>\<open>json.loads\<close>\<close>

text \<open>
  The functions of this development take the JSON parser as a parameter, and their
  theorems hold for every parser. Where a concrete text has to be parsed, this
  recursive-descent parser of the JSON grammar is used: objects (a repeated key keeps
  its first place and takes the last value), arrays, strings with the one-letter
  escapes, integers and the three literals, with whitespace between tokens. It rejects
  numbers with a fraction or an exponent and \<^verbatim>\<open>\u\<close> escapes, which denote values
  outside \<^typ>\<open>json\<close>. The first argument of \<open>parse_value\<close> bounds the number of values
  read; \<open>json_loads\<close> starts it at the length of the text.
\<close>

definition code :: "char \<Rightarrow> nat" where
  "code c = of_char c"

definition is_digit :: "char \<Rightarrow> bool" where
  "is_digit c = (48 \<le> code c \<and> code c \<le> 57)"

definition nat_of_digits :: "string \<Rightarrow> nat" where
  "nat_of_digits ds = foldl (\<lambda>a c. 10 * a + (code c - 48)) 0 ds"

definition is_json_ws :: "char \<Rightarrow> bool" where
  "is_json_ws c = (c = CHR '' '' \<or> c = CHR 0x09 \<or> c = CHR 0x0A \<or> c = CHR 0x0D)"

definition skip_ws :: "string \<Rightarrow> string" where
  "skip_ws s = dropWhile is_json_ws s"

definition expect :: "char \<Rightarrow> string \<Rightarrow> string option" where
  "expect ch s = (case s of [] \<Rightarrow> None | c # r \<Rightarrow> if c = ch then Some r else None)"

definition unescape :: "char \<Rightarrow> char option" where
  "unescape e =
     (if e = CHR 0x22 \<or> e = CHR 0x5C \<or> e = CHR ''/'' then Some e
      else if e = CHR ''b'' then Some (CHR 0x08)
      else if e = CHR ''f'' then Some (CHR 0x0C)
      else if e = CHR ''n'' then Some (CHR 0x0A)
      else if e = CHR ''r'' then Some (CHR 0x0D)
      else if e = CHR ''t'' then Some (CHR 0x09)
      else None)"

fun parse_str :: "string \<Rightarrow> (string \<times> string) option" where
  "parse_str [] = None"
| "parse_str (c # cs) =
     (if c = CHR 0x22 then Some ([], cs)
      else if c = CHR 0x5C then
        (case cs of
           [] \<Rightarrow> None
         | e # cs' \<Rightarrow>
             (case unescape e of
                None \<Rightarrow> None
              | Some ch \<Rightarrow> map_option (apfst ((#) ch)) (parse_str cs')))
      else if code c < 32 then None
      else map_option (apfst ((#) c)) (parse_str cs))"

definition parse_number :: "string \<Rightarrow> (json \<times> string) option" where
  "parse_number s =
     (let neg = (take 1 s = ''-'');
          r = (if neg then drop 1 s else s);
          ds = (if take 1 r = ''0'' then ''0'' else takeWhile is_digit r);
          rest = drop (length ds) r
      in if ds = [] \<or> take 1 rest = ''.'' \<or> take 1 rest = ''e'' \<or> take 1 rest = ''E'' then None
         else Some (JInt (if neg then - int (nat_of_digits ds) else int (nat_of_digits ds)), rest))"

fun parse_value :: "nat \<Rightarrow> string \<Rightarrow> (json \<times> string) option"
  and parse_members :: "nat \<Rightarrow> string \<Rightarrow> pydict \<Rightarrow> (json \<times> string) option"
  and parse_elems :: "nat \<Rightarrow> string \<Rightarrow> json list \<Rightarrow> (json \<times> string) option" where
  "parse_value 0 s = None"
| "parse_value (Suc n) s =
     (if take 1 s = ''{'' then
        (case expect (CHR ''}'') (skip_ws (drop 1 s)) of
           Some r \<Rightarrow> Some (JObj [], r)
         | None \<Rightarrow> parse_members n (skip_ws (drop 1 s)) [])
      else if take 1 s = ''['' then
        (case expect (CHR '']'') (skip_ws (drop 1 s)) of
           Some r \<Rightarrow> Some (JArr [], r)
         | None \<Rightarrow> parse_elems n (skip_ws (drop 1 s)) [])
      else if take 1 s = [CHR 0x22] then map_option (apfst JStr) (parse_str (drop 1 s))
      else if take 4 s = ''true'' then Some (JBool True, drop 4 s)
      else if take 5 s = ''false'' then Some (JBool False, drop 5 s)
      else if take 4 s = ''null'' then Some (JNull, drop 4 s)
      else parse_number s)"
| "parse_members 0 s acc = None"
| "parse_members (Suc n) s acc =
     (case expect (CHR 0x22) s of
        None \<Rightarrow> None
      | Some r \<Rightarrow>
          (case parse_str r of
             None \<Rightarrow> None
           | Some (k, r1) \<Rightarrow>
               (case expect (CHR '':'') (skip_ws r1) of
                  None \<Rightarrow> None
                | Some r2 \<Rightarrow>
                    (case parse_value n (skip_ws r2) of
                       None \<Rightarrow> None
                     | Some (v, r3) \<Rightarrow>
                         (case expect (CHR '','') (skip_ws r3) of
                            Some r4 \<Rightarrow> parse_members n (skip_ws r4) (dict_set k v acc)
                          | None \<Rightarrow>
                              (case expect (CHR ''}'') (skip_ws r3) of
                                 Some r4 \<Rightarrow> Some (JObj (dict_set k v acc), r4)
                               | None \<Rightarrow> None))))))"
| "parse_elems 0 s acc = None"
| "parse_elems (Suc n) s acc =
     (case parse_value n s of
        None \<Rightarrow> None
      | Some (v, r1) \<Rightarrow>
          (case expect (CHR '','') (skip_ws r1) of
             Some r2 \<Rightarrow> parse_elems n (skip_ws r2) (acc @ [v])
           | None \<Rightarrow>
               (case expect (CHR '']'') (skip_ws r1) of
                  Some r2 \<Rightarrow> Some (JArr (acc @ [v]), r2)
                | None \<Rightarrow> None)))"

definition json_loads :: "string \<Rightarrow> json option" where
  "json_loads s =
     (case parse_value (length s) (skip_ws s) of
        None \<Rightarrow> None
      | Some (v, rest) \<Rightarrow> if skip_ws rest = [] then Some v else None)"

section \<open>Python strings and the topic patterns\<close>

text \<open>
  \<^verbatim>\<open>str.isspace\<close>, which is also the class \<^verbatim>\<open>\s\<close> of \<^verbatim>\<open>re\<close>, on the code points
  below 256; \<^verbatim>\<open>strip()\<close>, \<^verbatim>\<open>split()\<close>, \<^verbatim>\<open>" ".join\<close> and \<^verbatim>\<open>lower()\<close>.
\<close>

definition is_space :: "char \<Rightarrow> bool" where
  "is_space c = (code c \<in> {9, 10, 11, 12, 13, 28, 29, 30, 31, 32, 133, 160})"

definition py_strip :: "string \<Rightarrow> string" where
  "py_strip s = rev (dropWhile is_space (rev (dropWhile is_space s)))"

fun split_ws :: "string \<Rightarrow> string \<Rightarrow> string list" where
  "split_ws [] cur = (if cur = [] then [] else [cur])"
| "split_ws (c # cs) cur =
     (if is_space c then (if cur = [] then split_ws cs [] else cur # split_ws cs [])
      else split_ws cs (cur @ [c]))"

definition py_split :: "string \<Rightarrow> string list" where
  "py_split s = split_ws s []"

fun join_sp :: "string list \<Rightarrow> string" where
  "join_sp [] = []"
| "join_sp [w] = w"
| "join_sp (w # ws) = w @ '' '' @ join_sp ws"

definition lower_char :: "char \<Rightarrow> char" where
  "lower_char c =
     (if (65 \<le> code c \<and> code c \<le> 90) \<or> (192 \<le> code c \<and> code c \<le> 222 \<and> code c \<noteq> 215)
      then char_of (code c + 32) else c)"

definition py_lower :: "string \<Rightarrow> string" where
  "py_lower s = map lower_char s"

datatype rx = Lit string | Spaces | Seq rx rx | Alt rx rx

fun rx_match :: "rx \<Rightarrow> string \<Rightarrow> string list" where
  "rx_match (Lit l) s = (if take (length l) s = l then [drop (length l) s] else [])"
| "rx_match Spaces s = map (\<lambda>k. drop k s) (rev [1..<Suc (length (takeWhile is_space s))])"
| "rx_match (Seq a b) s = concat (map (rx_match b) (rx_match a s))"
| "rx_match (Alt a b) s = rx_match a s @ rx_match b s"

definition is_topic_char :: "char \<Rightarrow> bool" where
  "is_topic_char c =
     ((65 \<le> code c \<and> code c \<le> 90) \<or> (97 \<le> code c \<and> code c \<le> 122) \<or> is_digit c
      \<or> c = CHR '' '' \<or> c = CHR ''_'' \<or> c = CHR ''-'' \<or> c = CHR ''/'')"

definition group_at :: "rx \<Rightarrow> string \<Rightarrow> string option" where
  "group_at p s =
     map_option (takeWhile is_topic_char)
       (List.find (\<lambda>r. 2 \<le> length (takeWhile is_topic_char r)) (rx_match (Seq p Spaces) s))"

fun rx_search :: "rx \<Rightarrow> string \<Rightarrow> string option" where
  "rx_search p [] = group_at p []"
| "rx_search p (c # cs) =
     (case group_at p (c # cs) of Some g \<Rightarrow> Some g | None \<Rightarrow> rx_search p cs)"

definition patterns :: "rx list" where
  "patterns =
     [Alt (Lit ''explain'') (Seq (Lit ''explain'') (Seq Spaces (Lit ''about''))),
      Seq (Lit ''what'') (Alt (Lit (CHR 0x27 # ''s'')) (Alt (Lit '' is'') (Lit '' are''))),
      Lit ''tell me about'',
      Lit ''struggling with'',
      Seq (Lit ''practice problems '') (Alt (Lit ''on'') (Lit ''for'')),
      Seq (Lit ''need '') (Seq (Alt (Lit ''help'') (Lit ''practice''))
        (Seq (Lit '' '') (Alt (Lit ''with'') (Lit ''on''))))]"

definition is_punct :: "char \<Rightarrow> bool" where
  "is_punct c = (c = CHR ''.'' \<or> c = CHR ''?'' \<or> c = CHR '','' \<or> c = CHR ''!'')"

definition rstrip_punct :: "string \<Rightarrow> string" where
  "rstrip_punct s = rev (dropWhile is_punct (rev s))"

definition sub_trailing_punct :: "string \<Rightarrow> string" where
  "sub_trailing_punct s =
     (if s \<noteq> [] \<and> last s = CHR 0x0A then rstrip_punct (butlast s) @ [CHR 0x0A]
      else rstrip_punct s)"

fun pattern_candidates :: "rx list \<Rightarrow> string \<Rightarrow> string list" where
  "pattern_candidates [] lower = []"
| "pattern_candidates (pat # pats) lower =
     (case rx_search pat lower of
        None \<Rightarrow> pattern_candidates pats lower
      | Some g \<Rightarrow>
          (let cand = py_strip (sub_trailing_punct (py_strip g))
           in if cand \<noteq> [] then cand # pattern_candidates pats lower
              else pattern_candidates pats lower))"

fun dedupe :: "string list \<Rightarrow> string list \<Rightarrow> string list" where
  "dedupe [] seen = []"
| "dedupe (c # cs) seen = (if c \<in> set seen then dedupe cs seen else c # dedupe cs (c # seen))"

definition extract_candidates_for_concept :: "string \<Rightarrow> string list" where
  "extract_candidates_for_concept message =
     (let msg = py_strip message;
          candidates = pattern_candidates patterns (py_lower msg);
          candidates' =
            (if candidates = [] then
               (if length (py_split msg) \<le> 6 then [msg] else [join_sp (take 6 (py_split msg))])
             else candidates)
      in dedupe candidates' [])"

type_synonym user_ctx = "(string \<times> string) list"

definition ctx_get :: "user_ctx \<Rightarrow> string \<Rightarrow> string \<Rightarrow> string" where
  "ctx_get ctx k dflt = (case map_of ctx k of None \<Rightarrow> dflt | Some v \<Rightarrow> v)"

definition get_mastery_level_int :: "user_ctx \<Rightarrow> int" where
  "get_mastery_level_int user_context =
     (let s = ctx_get user_context ''mastery_level_summary'' [];
          ds = takeWhile is_digit (dropWhile (\<lambda>c. \<not> is_digit c) s)
      in if ds \<noteq> [] then int (nat_of_digits ds) else 4)"

section \<open>SchemaRegistry and SchemaValidator\<close>

text \<open>
  A schema of \<^verbatim>\<open>TOOL_PARAM_SCHEMAS\<close> lists its required fields and gives each property
  a type, and where the source has them an enumeration or a numeric range.
  \<open>schema_ok\<close> is what \<^verbatim>\<open>jsonschema.validate\<close> accepts for these keywords:
  every required key is present, and every property that is present has its type,
  lies in its enumeration and within its range. \<^verbatim>\<open>True\<close> and \<^verbatim>\<open>False\<close> are no
  integers to the validator.
\<close>

datatype jtype = TString | TBoolean | TInteger

record prop_schema =
  ptype :: jtype
  penum :: "string list option"
  pminimum :: "int option"
  pmaximum :: "int option"

record tool_schema =
  required :: "string list"
  properties :: "(string \<times> prop_schema) list"

definition plain :: "jtype \<Rightarrow> prop_schema" where
  "plain t = \<lparr>ptype = t, penum = None, pminimum = None, pmaximum = None\<rparr>"

definition enum_of :: "string list \<Rightarrow> prop_schema" where
  "enum_of vs = \<lparr>ptype = TString, penum = Some vs, pminimum = None, pmaximum = None\<rparr>"

definition note_maker_schema :: tool_schema where
  "note_maker_schema =
     \<lparr>required = [''topic'', ''subject'', ''note_taking_style''],
      properties =
        [(''topic'', plain TString),
         (''subject'', plain TString),
         (''note_taking_style'', enum_of [''outline'', ''bullet_points'', ''narrative'', ''structured'']),
         (''include_examples'', plain TBoolean),
         (''include_analogies'', plain TBoolean)]\<rparr>"

definition flashcard_generator_schema :: tool_schema where
  "flashcard_generator_schema =
     \<lparr>required = [''topic'', ''count'', ''difficulty'', ''subject''],
      properties =
        [(''topic'', plain TString),
         (''count'', \<lparr>ptype = TInteger, penum = None, pminimum = Some 1, pmaximum = Some 20\<rparr>),
         (''difficulty'', enum_of [''easy'', ''medium'', ''hard'']),
         (''include_examples'', plain TBoolean),
         (''subject'', plain TString)]\<rparr>"

definition concept_explainer_schema :: tool_schema where
  "concept_explainer_schema =
     \<lparr>required = [''concept_to_explain'', ''current_topic'', ''desired_depth''],
      properties =
        [(''concept_to_explain'', plain TString),
         (''current_topic'', plain TString),
         (''desired_depth'', enum_of [''basic'', ''intermediate'', ''advanced'', ''comprehensive'']),
         (''include_examples'', plain TBoolean)]\<rparr>"

definition TOOL_PARAM_SCHEMAS :: "(string \<times> tool_schema) list" where
  "TOOL_PARAM_SCHEMAS =
     [(''note_maker'', note_maker_schema),
      (''flashcard_generator'', flashcard_generator_schema),
      (''concept_explainer'', concept_explainer_schema)]"

definition has_type :: "jtype \<Rightarrow> json \<Rightarrow> bool" where
  "has_type t v =
     (case (t, v) of
        (TString, JStr _) \<Rightarrow> True
      | (TBoolean, JBool _) \<Rightarrow> True
      | (TInteger, JInt _) \<Rightarrow> True
      | _ \<Rightarrow> False)"

definition valid_prop :: "prop_schema \<Rightarrow> json \<Rightarrow> bool" where
  "valid_prop ps v =
     (has_type (ptype ps) v
      \<and> (case penum ps of None \<Rightarrow> True | Some vs \<Rightarrow> v \<in> set (map JStr vs))
      \<and> (case (pminimum ps, v) of (Some lo, JInt n) \<Rightarrow> lo \<le> n | _ \<Rightarrow> True)
      \<and> (case (pmaximum ps, v) of (Some hi, JInt n) \<Rightarrow> n \<le> hi | _ \<Rightarrow> True))"

definition schema_ok :: "pydict \<Rightarrow> tool_schema \<Rightarrow> bool" where
  "schema_ok inst sch =
     (list_all (\<lambda>k. map_of inst k \<noteq> None) (required sch)
      \<and> list_all (\<lambda>(k, ps). case map_of inst k of None \<Rightarrow> True | Some v \<Rightarrow> valid_prop ps v)
           (properties sch))"

definition validate :: "pydict \<Rightarrow> tool_schema \<Rightarrow> error + unit" where
  "validate inst sch = (if schema_ok inst sch then Inr () else Inl SchemaViolation)"

section \<open>ParameterInferencer\<close>

text \<open>\<^verbatim>\<open>candidates[0] if candidates else dflt\<close>\<close>

definition first_or :: "string list \<Rightarrow> string \<Rightarrow> string" where
  "first_or candidates dflt = (case candidates of [] \<Rightarrow> dflt | c # _ \<Rightarrow> c)"

definition fill_concept_explainer ::
  "string list \<Rightarrow> string \<Rightarrow> user_ctx \<Rightarrow> pydict \<Rightarrow> string \<Rightarrow> pydict" where
  "fill_concept_explainer candidates user_message user_context filled key =
     (if key = ''concept_to_explain'' then
        dict_set ''concept_to_explain'' (JStr (first_or candidates user_message)) filled
      else if key = ''current_topic'' then
        dict_set ''current_topic''
          (dict_get filled ''concept_to_explain'' (JStr (first_or candidates user_message))) filled
      else if key = ''desired_depth'' then
        (let lvl = get_mastery_level_int user_context
         in if lvl \<le> 3 then dict_set ''desired_depth'' (JStr ''basic'') filled
            else if lvl \<le> 6 then dict_set ''desired_depth'' (JStr ''intermediate'') filled
            else dict_set ''desired_depth'' (JStr ''advanced'') filled)
      else if key = ''include_examples'' then dict_set ''include_examples'' (JBool True) filled
      else filled)"

definition fill_flashcard_generator ::
  "string list \<Rightarrow> string \<Rightarrow> user_ctx \<Rightarrow> pydict \<Rightarrow> string \<Rightarrow> pydict" where
  "fill_flashcard_generator candidates user_message user_context filled key =
     (if key = ''topic'' then dict_set ''topic'' (JStr (first_or candidates user_message)) filled
      else if key = ''count'' then dict_set ''count'' (JInt 5) filled
      else if key = ''difficulty'' then
        (let lvl = get_mastery_level_int user_context
         in if lvl \<le> 3 then dict_set ''difficulty'' (JStr ''easy'') filled
            else if lvl \<le> 6 then dict_set ''difficulty'' (JStr ''medium'') filled
            else dict_set ''difficulty'' (JStr ''hard'') filled)
      else if key = ''subject'' then dict_set ''subject'' (JStr (first_or candidates ''general'')) filled
      else if key = ''include_examples'' then dict_set ''include_examples'' (JBool True) filled
      else filled)"

definition fill_note_maker ::
  "string list \<Rightarrow> string \<Rightarrow> user_ctx \<Rightarrow> pydict \<Rightarrow> string \<Rightarrow> pydict" where
  "fill_note_maker candidates user_message user_context filled key =
     (if key = ''topic'' then dict_set ''topic'' (JStr (first_or candidates user_message)) filled
      else if key = ''subject'' then dict_set ''subject'' (JStr (first_or candidates ''general'')) filled
      else if key = ''note_taking_style'' then
        (let pref = py_lower (ctx_get user_context ''preferred_teaching_style'' [])
         in if pref = ''visual'' then dict_set ''note_taking_style'' (JStr ''structured'') filled
            else dict_set ''note_taking_style'' (JStr ''outline'') filled)
      else if key = ''include_examples'' then dict_set ''include_examples'' (JBool True) filled
      else if key = ''include_analogies'' then
        (let pref = py_lower (ctx_get user_context ''preferred_teaching_style'' [])
         in dict_set ''include_analogies'' (JBool (pref = ''visual'')) filled)
      else filled)"

definition prop_type :: "string \<Rightarrow> string \<Rightarrow> jtype option" where
  "prop_type tool k =
     (case map_of TOOL_PARAM_SCHEMAS tool of
        None \<Rightarrow> None
      | Some sch \<Rightarrow> map_option ptype (map_of (properties sch) k))"

text \<open>The final safety pass of \<^verbatim>\<open>_infer_missing_parameters\<close>: a value that is
  \<^verbatim>\<open>None\<close> is replaced according to the type its field has in the tool's schema.\<close>

definition safe_value :: "string \<Rightarrow> string \<Rightarrow> string \<Rightarrow> json \<Rightarrow> json" where
  "safe_value tool user_message k v =
     (if v = JNull then
        (case prop_type tool k of
           Some TString \<Rightarrow> JStr user_message
         | Some TBoolean \<Rightarrow> JBool True
         | Some TInteger \<Rightarrow> JInt 1
         | None \<Rightarrow> v)
      else v)"

definition final_safety :: "string \<Rightarrow> string \<Rightarrow> pydict \<Rightarrow> pydict" where
  "final_safety tool user_message filled =
     map (\<lambda>(k, v). (k, safe_value tool user_message k v)) filled"

definition infer_missing_parameters ::
  "string \<Rightarrow> string list \<Rightarrow> string \<Rightarrow> json list \<Rightarrow> user_ctx \<Rightarrow> pydict \<Rightarrow> pydict" where
  "infer_missing_parameters tool missing user_message chat_history user_context params =
     (let candidates = extract_candidates_for_concept user_message;
          filled =
            (if tool = ''concept_explainer'' then
               foldl (fill_concept_explainer candidates user_message user_context) params missing
             else if tool = ''flashcard_generator'' then
               foldl (fill_flashcard_generator candidates user_message user_context) params missing
             else if tool = ''note_maker'' then
               foldl (fill_note_maker candidates user_message user_context) params missing
             else params)
      in final_safety tool user_message filled)"

section \<open>The tool decision\<close>

record decision =
  d_tool :: string
  d_parameters :: pydict

definition get_tool_decision ::
  "(string \<Rightarrow> json option) \<Rightarrow> error + string \<Rightarrow> string \<Rightarrow> json list \<Rightarrow> user_ctx
     \<Rightarrow> error + decision" where
  "get_tool_decision loads ask user_message chat_history user_context =
     (case ask of
        Inl e \<Rightarrow> Inl e
      | Inr raw \<Rightarrow>
     (case extract_first_json loads raw of
        Inl e \<Rightarrow> Inl e
      | Inr parsed \<Rightarrow>
     (case parsed of
        JObj obj \<Rightarrow>
          (case (map_of obj ''tool'', map_of obj ''parameters'') of
             (Some tv, Some pv) \<Rightarrow>
               (case tv of
                  JArr _ \<Rightarrow> Inl PyTypeError
                | JObj _ \<Rightarrow> Inl PyTypeError
                | JStr t \<Rightarrow>
                    (case map_of TOOL_PARAM_SCHEMAS t of
                       None \<Rightarrow> Inl UnknownTool
                     | Some schema \<Rightarrow>
                         (case pv of
                            JObj params \<Rightarrow>
                              (let missing = filter (\<lambda>k. map_of params k = None) (required schema)
                               in if missing \<noteq> [] then
                                    (let inferred = infer_missing_parameters t missing user_message
                                                      chat_history user_context params
                                     in case validate inferred schema of
                                          Inl e \<Rightarrow> Inl e
                                        | Inr _ \<Rightarrow> Inr \<lparr>d_tool = t, d_parameters = inferred\<rparr>)
                                  else
                                    (case validate params schema of
                                       Inl e \<Rightarrow> Inl e
                                     | Inr _ \<Rightarrow> Inr \<lparr>d_tool = t, d_parameters = params\<rparr>))
                          | _ \<Rightarrow> Inl PyAttributeError))
                | _ \<Rightarrow> Inl UnknownTool)
           | _ \<Rightarrow> Inl MissingKeys)
      | _ \<Rightarrow> Inl MissingKeys)))"

section \<open>Context-driven defaults, ToolDispatcher and Orchestrator\<close>

text \<open>\<^verbatim>\<open>int(s)\<close> on a string: surrounding whitespace is stripped, a sign may lead, and
  single underscores may stand between digits. \<open>prev\<close> tells whether a digit was just read.\<close>

fun int_digits :: "string \<Rightarrow> bool \<Rightarrow> string option" where
  "int_digits [] prev = (if prev then Some [] else None)"
| "int_digits (c # cs) prev =
     (if is_digit c then map_option ((#) c) (int_digits cs True)
      else if c = CHR ''_'' \<and> prev \<and> cs \<noteq> [] \<and> is_digit (hd cs) then int_digits cs False
      else None)"

definition py_int_str :: "string \<Rightarrow> int option" where
  "py_int_str s =
     (let t = py_strip s;
          neg = (take 1 t = ''-'');
          r = (if neg \<or> take 1 t = ''+'' then drop 1 t else t)
      in case int_digits r False of
           None \<Rightarrow> None
         | Some ds \<Rightarrow> Some (if neg then - int (nat_of_digits ds) else int (nat_of_digits ds)))"

text \<open>\<^verbatim>\<open>int(v)\<close> on a value: \<^verbatim>\<open>TypeError\<close> for \<^verbatim>\<open>None\<close>, lists and dicts,
  \<^verbatim>\<open>ValueError\<close> for a string that is no integer literal.\<close>

definition py_int :: "json \<Rightarrow> error + int" where
  "py_int v =
     (case v of
        JInt n \<Rightarrow> Inr n
      | JBool b \<Rightarrow> Inr (if b then 1 else 0)
      | JStr s \<Rightarrow> (case py_int_str s of None \<Rightarrow> Inl PyValueError | Some n \<Rightarrow> Inr n)
      | _ \<Rightarrow> Inl PyTypeError)"

text \<open>The level as \<^verbatim>\<open>_infer_defaults\<close> reads it:
  \<^verbatim>\<open>int(user_context.get("mastery_level_summary", "Level 4").split()[1])\<close>, and 4 on
  any exception.\<close>

definition split_mastery_level :: "user_ctx \<Rightarrow> int" where
  "split_mastery_level user_context =
     (case py_split (ctx_get user_context ''mastery_level_summary'' ''Level 4'') of
        _ # token # _ \<Rightarrow> (case py_int_str token of None \<Rightarrow> 4 | Some n \<Rightarrow> n)
      | _ \<Rightarrow> 4)"

definition infer_defaults :: "pydict \<Rightarrow> string \<Rightarrow> user_ctx \<Rightarrow> pydict" where
  "infer_defaults parameters tool user_context =
     (let params = parameters;
          params =
            (if tool = ''flashcard_generator'' then
               (let params = setdefault ''count'' (JInt 5) params;
                    lvl = split_mastery_level user_context
                in if lvl \<le> 3 then setdefault ''difficulty'' (JStr ''easy'') params
                   else if lvl \<le> 6 then setdefault ''difficulty'' (JStr ''medium'') params
                   else setdefault ''difficulty'' (JStr ''hard'') params)
             else params);
          params =
            (if tool = ''note_maker'' then
               (let pref = py_lower (ctx_get user_context ''preferred_teaching_style'' [])
                in if pref = ''visual'' then
                     setdefault ''include_analogies'' (JBool True)
                       (setdefault ''include_examples'' (JBool True)
                         (setdefault ''note_taking_style'' (JStr ''structured'') params))
                   else
                     setdefault ''include_analogies'' (JBool False)
                       (setdefault ''include_examples'' (JBool True)
                         (setdefault ''note_taking_style''
                           (dict_get params ''note_taking_style'' (JStr ''outline'')) params)))
             else params);
          params =
            (if tool = ''concept_explainer'' then
               (let lvl = split_mastery_level user_context;
                    params =
                      (if lvl \<le> 3 then setdefault ''desired_depth'' (JStr ''basic'') params
                       else if lvl \<le> 6 then setdefault ''desired_depth'' (JStr ''intermediate'') params
                       else setdefault ''desired_depth'' (JStr ''advanced'') params)
                in setdefault ''include_examples'' (JBool True) params)
             else params)
      in params)"

text \<open>The user prefers the teaching style \<open>visual\<close>, in any letter case: the test both
  defaulting layers make.\<close>

definition visual :: "user_ctx \<Rightarrow> bool" where
  "visual user_context = (py_lower (ctx_get user_context ''preferred_teaching_style'' []) = ''visual'')"

text \<open>The fields the second defaulting pass may fill.\<close>

definition default_targets :: "string list" where
  "default_targets =
     [''count'', ''difficulty'', ''desired_depth'', ''note_taking_style'', ''include_examples'',
      ''include_analogies'']"

definition TOOL_ENDPOINTS :: "(string \<times> string) list" where
  "TOOL_ENDPOINTS =
     [(''note_maker'', ''http://localhost:8101/note_maker''),
      (''flashcard_generator'', ''http://localhost:8102/flashcards''),
      (''concept_explainer'', ''http://localhost:8103/explain'')]"

text \<open>
  \<^verbatim>\<open>_mock_response\<close>. \<open>fmt\<close> is Python's \<^verbatim>\<open>str()\<close>, which the f-strings apply to the
  values they embed; it is total on JSON values and is taken as a parameter.
\<close>

definition mock_response :: "(json \<Rightarrow> string) \<Rightarrow> string \<Rightarrow> pydict \<Rightarrow> error + json" where
  "mock_response fmt tool_name params =
     (if tool_name = ''note_maker'' then
        Inr (JObj
          [(''topic'', dict_get params ''topic'' (JStr ''general'')),
           (''title'', JStr (''Notes: '' @ fmt (dict_get params ''topic'' (JStr ''general'')))),
           (''summary'', JStr (''Auto-generated notes for ''
               @ fmt (dict_get params ''topic'' (JStr ''general'')) @ ''.'')),
           (''note_sections'',
              JArr [JObj [(''title'', JStr ''Key idea''), (''content'', JStr ''Concept explained''),
                          (''key_points'', JArr [JStr ''p1'', JStr ''p2'']), (''examples'', JArr [])]]),
           (''note_taking_style'', dict_get params ''note_taking_style'' (JStr ''structured''))])
      else if tool_name = ''flashcard_generator'' then
        (case py_int (dict_get params ''count'' (JInt 5)) of
           Inl e \<Rightarrow> Inl e
         | Inr count \<Rightarrow>
             Inr (JObj
               [(''topic'', dict_get params ''topic'' (JStr ''general'')),
                (''flashcards'',
                   JArr (map (\<lambda>i. JObj
                           [(''title'', JStr (fmt (dict_get params ''topic'' (JStr ''Q'')) @ '' #''
                               @ fmt (JInt (int i + 1)))),
                            (''question'', JStr (''Q'' @ fmt (JInt (int i + 1)))),
                            (''answer'', JStr (''A'' @ fmt (JInt (int i + 1)))),
                            (''example'', JStr [])])
                         [0..<nat (min 20 count)])),
                (''difficulty'', dict_get params ''difficulty'' (JStr ''medium'')),
                (''adaptation_details'', JStr ''mocked'')]))
      else if tool_name = ''concept_explainer'' then
        Inr (JObj
          [(''explanation'', JStr (''A concise explanation of ''
               @ fmt (dict_get params ''concept_to_explain'' (JStr ''the concept'')) @ ''.'')),
           (''examples'', JArr [JStr ''Example 1'', JStr ''Example 2'']),
           (''related_concepts'', JArr [JStr ''related 1'', JStr ''related 2'']),
           (''practice_questions'', JArr [JStr ''Q1'', JStr ''Q2''])])
      else Inr (JObj [(''result'', JStr ''unknown tool'')]))"

text \<open>
  \<^verbatim>\<open>execute_tool\<close>. The outbound call is the parameter \<open>post\<close>: given the endpoint and
  the body it answers with the decoded response, or with the exception that
  \<^verbatim>\<open>client.post\<close>, \<^verbatim>\<open>raise_for_status\<close> or \<^verbatim>\<open>resp.json\<close> raised.
\<close>

definition execute_tool ::
  "(json \<Rightarrow> string) \<Rightarrow> (string \<Rightarrow> pydict \<Rightarrow> error + json) \<Rightarrow> string \<Rightarrow> pydict \<Rightarrow> error + json" where
  "execute_tool fmt post tool_name parameters =
     (case map_of TOOL_ENDPOINTS tool_name of
        None \<Rightarrow> Inl UnconfiguredTool
      | Some endpoint \<Rightarrow>
          (if endpoint = [] then Inl UnconfiguredTool
           else (case post endpoint parameters of
                   Inr resp \<Rightarrow> Inr resp
                 | Inl e \<Rightarrow> mock_response fmt tool_name parameters)))"

definition ctx_json :: "user_ctx \<Rightarrow> json" where
  "ctx_json user_context = JObj (map (\<lambda>(k, v). (k, JStr v)) user_context)"

text \<open>The parameters that are fields of the tool's schema:
  \<^verbatim>\<open>{k: v for k, v in parameters.items() if k in tool_schema.get("properties", {})}\<close>.\<close>

definition tool_scoped :: "tool_schema \<Rightarrow> pydict \<Rightarrow> pydict" where
  "tool_scoped sch ps = filter (\<lambda>(k, v). map_of (properties sch) k \<noteq> None) ps"

text \<open>
  \<^verbatim>\<open>orchestrate_with_gemini\<close> up to the call of the dispatcher: the decision, the two
  auxiliary fields, the second defaulting pass and the three validations.
\<close>

definition prepare_dispatch ::
  "(string \<Rightarrow> json option) \<Rightarrow> error + string \<Rightarrow> string \<Rightarrow> json list \<Rightarrow> user_ctx
     \<Rightarrow> error + decision" where
  "prepare_dispatch loads ask message chat_history user_context =
     (case get_tool_decision loads ask message chat_history user_context of
        Inl e \<Rightarrow> Inl e
      | Inr decision \<Rightarrow>
          (let tool_name = d_tool decision;
               parameters = d_parameters decision;
               parameters = dict_set ''user_info'' (ctx_json user_context) parameters;
               parameters = dict_set ''chat_history'' (JArr chat_history) parameters;
               parameters = infer_defaults parameters tool_name user_context
           in case map_of parameters ''user_info'' of
                Some (JObj _) \<Rightarrow>
                  (case map_of TOOL_PARAM_SCHEMAS tool_name of
                     None \<Rightarrow> Inl PyKeyError
                   | Some tool_schema \<Rightarrow>
                       (let tool_params = tool_scoped tool_schema parameters
                        in case validate tool_params tool_schema of
                             Inl e \<Rightarrow> Inl e
                           | Inr _ \<Rightarrow> Inr \<lparr>d_tool = tool_name, d_parameters = parameters\<rparr>))
              | _ \<Rightarrow> Inl SchemaViolation))"

text \<open>
  A run of \<^verbatim>\<open>orchestrate_with_gemini\<close>: the calls it made to the dispatcher, in
  order, and what it returned or raised.
\<close>

record run =
  dispatched :: "(string \<times> pydict) list"
  outcome :: "error + json"

definition orchestrate_with_gemini ::
  "(string \<Rightarrow> json option) \<Rightarrow> (json \<Rightarrow> string) \<Rightarrow> (string \<Rightarrow> pydict \<Rightarrow> error + json)
     \<Rightarrow> error + string \<Rightarrow> string \<Rightarrow> json list \<Rightarrow> user_ctx \<Rightarrow> run" where
  "orchestrate_with_gemini loads fmt post ask message chat_history user_context =
     (case prepare_dispatch loads ask message chat_history user_context of
        Inl e \<Rightarrow> \<lparr>dispatched = [], outcome = Inl e\<rparr>
      | Inr d \<Rightarrow>
          \<lparr>dispatched = [(d_tool d, d_parameters d)],
           outcome =
             (case execute_tool fmt post (d_tool d) (d_parameters d) of
                Inl e \<Rightarrow> Inl e
              | Inr result \<Rightarrow>
                  Inr (JObj [(''tool'', JStr (d_tool d)), (''parameters'', JObj (d_parameters d)),
                             (''result'', result)]))\<rparr>)"

section \<open>Extraction of the first JSON object\<close>

lemma first_parsed_Nil: "first_parsed loads [] = Inl NoJsonFound"
  by (simp add: first_parsed_def)

lemma first_parsed_Cons:
  "first_parsed loads (c # cs) =
     (case loads c of Some v \<Rightarrow> Inr v | None \<Rightarrow> first_parsed loads cs)"
  by (auto simp: first_parsed_def split: option.splits)

lemma slice_snoc:
  "s \<le> length pre \<Longrightarrow>
     slice (pre @ c # cs) s (Suc (length pre)) = slice (pre @ c # cs) s (length pre) @ [c]"
  by (simp add: slice_def Suc_diff_le take_Suc_conv_app_nth)

lemma slice_start: "slice (pre @ c # cs) (length pre) (Suc (length pre)) = [c]"
  by (simp add: slice_def)

text \<open>
  The loop and the spans agree in both of the loop's states: outside a span
  (\<^verbatim>\<open>start\<close> is \<^verbatim>\<open>None\<close>, the stack is empty) and inside one (\<^verbatim>\<open>start\<close> is the
  index where the span opened, the stack holds its depth). \<open>pre\<close> is the text already
  read, \<open>cs\<close> the text ahead.
\<close>

lemma scan_spans:
  "(scan_json loads (pre @ cs) (enumerate (length pre) cs) None []
      = first_parsed loads (spans_from cs None 0)) \<and>
   (\<forall>s d. s \<le> length pre \<longrightarrow>
      scan_json loads (pre @ cs) (enumerate (length pre) cs) (Some s) (replicate (Suc d) ''{'')
      = first_parsed loads (spans_from cs (Some (slice (pre @ cs) s (length pre))) (Suc d)))"
proof (induction cs arbitrary: pre)
  case Nil
  show ?case by (simp add: first_parsed_Nil)
next
  case (Cons c cs)
  have IH1: "scan_json loads (pre @ c # cs) (enumerate (Suc (length pre)) cs) None []
      = first_parsed loads (spans_from cs None 0)"
    using Cons.IH[of "pre @ [c]"] by simp
  have IH2: "\<And>s d. s \<le> Suc (length pre) \<Longrightarrow>
      scan_json loads (pre @ c # cs) (enumerate (Suc (length pre)) cs) (Some s)
        (replicate (Suc d) ''{'')
      = first_parsed loads
          (spans_from cs (Some (slice (pre @ c # cs) s (Suc (length pre)))) (Suc d))"
    using Cons.IH[of "pre @ [c]"] by simp
  have out: "scan_json loads (pre @ c # cs) (enumerate (length pre) (c # cs)) None []
      = first_parsed loads (spans_from (c # cs) None 0)"
    using IH1 IH2[of "length pre" 0] by (cases "c = CHR ''{''") (auto simp: slice_start)
  have inn: "scan_json loads (pre @ c # cs) (enumerate (length pre) (c # cs)) (Some s)
        (replicate (Suc d) ''{'')
      = first_parsed loads
          (spans_from (c # cs) (Some (slice (pre @ c # cs) s (length pre))) (Suc d))"
    if "s \<le> length pre" for s d
  proof (cases d)
    case 0
    then show ?thesis using that IH1 IH2[of s 1] IH2[of s 0]
      by (cases "c = CHR ''{''"; cases "c = CHR ''}''")
         (auto simp: slice_snoc first_parsed_Cons split: option.splits)
  next
    case (Suc d')
    then show ?thesis using that IH2[of s d'] IH2[of s d] IH2[of s "Suc d"]
      by (cases "c = CHR ''{''"; cases "c = CHR ''}''")
         (auto simp: slice_snoc first_parsed_Cons split: option.splits)
  qed
  show ?case using out inn by blast
qed

text \<open>
  Claim C1, as amended. \<^verbatim>\<open>_extract_first_json\<close> returns the parsed value of the first
  top-level brace span of the text that parses, and fails with \<^verbatim>\<open>NoJsonFound\<close> exactly
  when no top-level span parses. A span opens at a \<open>{\<close> met at depth zero and closes at
  the \<open>}\<close> that brings the depth back to zero, and every brace character counts, also
  one inside a string literal. Prose before, between and after the spans is ignored.
  This holds for every parser.
\<close>

theorem extract_first_json_brace_spans:
  "extract_first_json loads text = first_parsed loads (brace_spans text)"
  using scan_spans[where pre = "[]" and cs = "text" and loads = loads]
  by (simp add: extract_first_json_def brace_spans_def)

text \<open>
  Claim C1 as stated fails. The first text is brace-balanced and is valid JSON, an
  object whose string value holds a closing and an opening brace; the scan tests the
  two spans that the braces inside the string cut out, neither parses, and the
  extraction fails. In the second text the object from index 2 to index 10 is
  brace-balanced and valid JSON, but the brace before it never closes, so the depth
  never returns to zero and no candidate is tested at all.
\<close>

theorem extract_first_json_counterexample:
  "brace_balanced ''{\"a\": \"}{\"}''
   \<and> json_loads ''{\"a\": \"}{\"}'' = Some (JObj [(''a'', JStr ''}{'')])
   \<and> brace_spans ''{\"a\": \"}{\"}'' = [''{\"a\": \"}'', ''{\"}'']
   \<and> extract_first_json json_loads ''{\"a\": \"}{\"}'' = Inl NoJsonFound
   \<and> slice ''{ {\"a\": 1}'' 2 10 = ''{\"a\": 1}''
   \<and> brace_balanced ''{\"a\": 1}''
   \<and> json_loads ''{\"a\": 1}'' = Some (JObj [(''a'', JInt 1)])
   \<and> extract_first_json json_loads ''{ {\"a\": 1}'' = Inl NoJsonFound"
  by code_simp

section \<open>Dictionaries\<close>

lemma map_of_dict_set: "map_of (dict_set k v d) k' = (if k' = k then Some v else map_of d k')"
  by (simp add: dict_set_def update_conv')

lemma setdefault_present:
  "map_of d k = Some v \<Longrightarrow> map_of (setdefault k' v' d) k = Some v"
  by (auto simp: setdefault_def map_of_dict_set split: option.splits)

lemma setdefault_other:
  "k \<noteq> k' \<Longrightarrow> map_of (setdefault k' v d) k = map_of d k"
  by (auto simp: setdefault_def map_of_dict_set split: option.splits)

lemma setdefault_absent:
  "map_of d k = None \<Longrightarrow> map_of (setdefault k v d) k = Some v"
  by (auto simp: setdefault_def map_of_dict_set split: option.splits)


section \<open>The second defaulting pass\<close>

text \<open>\<^verbatim>\<open>_infer_defaults\<close> tool by tool: the chain of \<^verbatim>\<open>setdefault\<close> calls it makes.\<close>

lemma infer_defaults_flashcard:
  "infer_defaults params ''flashcard_generator'' ctx =
     setdefault ''difficulty''
       (JStr (if split_mastery_level ctx \<le> 3 then ''easy''
              else if split_mastery_level ctx \<le> 6 then ''medium'' else ''hard''))
       (setdefault ''count'' (JInt 5) params)"
  by (simp add: infer_defaults_def Let_def)

lemma infer_defaults_note_maker:
  "infer_defaults params ''note_maker'' ctx =
     (if py_lower (ctx_get ctx ''preferred_teaching_style'' []) = ''visual'' then
        setdefault ''include_analogies'' (JBool True)
          (setdefault ''include_examples'' (JBool True)
            (setdefault ''note_taking_style'' (JStr ''structured'') params))
      else
        setdefault ''include_analogies'' (JBool False)
          (setdefault ''include_examples'' (JBool True)
            (setdefault ''note_taking_style''
              (dict_get params ''note_taking_style'' (JStr ''outline'')) params)))"
  by (simp add: infer_defaults_def Let_def)

lemma infer_defaults_concept:
  "infer_defaults params ''concept_explainer'' ctx =
     setdefault ''include_examples'' (JBool True)
       (setdefault ''desired_depth''
         (JStr (if split_mastery_level ctx \<le> 3 then ''basic''
                else if split_mastery_level ctx \<le> 6 then ''intermediate'' else ''advanced''))
         params)"
  by (simp add: infer_defaults_def Let_def)

lemma infer_defaults_other_tool:
  "tool \<noteq> ''flashcard_generator'' \<Longrightarrow> tool \<noteq> ''note_maker'' \<Longrightarrow>
   tool \<noteq> ''concept_explainer'' \<Longrightarrow> infer_defaults params tool ctx = params"
  by (simp add: infer_defaults_def Let_def)

lemma infer_defaults_present:
  assumes "map_of params k = Some v"
  shows "map_of (infer_defaults params tool ctx) k = Some v"
proof -
  consider "tool = ''flashcard_generator''" | "tool = ''note_maker''"
    | "tool = ''concept_explainer''"
    | "tool \<noteq> ''flashcard_generator''" "tool \<noteq> ''note_maker''" "tool \<noteq> ''concept_explainer''"
    by blast
  then show ?thesis
  proof cases
    case 1 then show ?thesis using assms
      by (simp only: infer_defaults_flashcard setdefault_present)
  next
    case 2 then show ?thesis using assms
      by (simp add: infer_defaults_note_maker setdefault_present)
  next
    case 3 then show ?thesis using assms
      by (simp only: infer_defaults_concept setdefault_present)
  next
    case 4 then show ?thesis using assms by (simp add: infer_defaults_other_tool)
  qed
qed


lemma infer_defaults_untouched:
  assumes "k \<notin> set default_targets"
  shows "map_of (infer_defaults params tool ctx) k = map_of params k"
proof -
  have ne: "k \<noteq> ''count''" "k \<noteq> ''difficulty''" "k \<noteq> ''desired_depth''"
    "k \<noteq> ''note_taking_style''" "k \<noteq> ''include_examples''" "k \<noteq> ''include_analogies''"
    using assms by (simp_all add: default_targets_def)
  consider "tool = ''flashcard_generator''" | "tool = ''note_maker''"
    | "tool = ''concept_explainer''"
    | "tool \<noteq> ''flashcard_generator''" "tool \<noteq> ''note_maker''" "tool \<noteq> ''concept_explainer''"
    by blast
  then show ?thesis
  proof cases
    case 1 then show ?thesis by (simp add: infer_defaults_flashcard setdefault_other ne)
  next
    case 2 then show ?thesis by (simp add: infer_defaults_note_maker setdefault_other ne)
  next
    case 3 then show ?thesis by (simp add: infer_defaults_concept setdefault_other ne)
  next
    case 4 then show ?thesis by (simp add: infer_defaults_other_tool)
  qed
qed

text \<open>
  Claim C7. For every parameter mapping, tool and user context, \<^verbatim>\<open>_infer_defaults\<close>
  leaves the value of every field already present unchanged (also a field bound to
  \<^verbatim>\<open>None\<close>), and changes no field outside \<open>count\<close>, \<open>difficulty\<close>,
  \<open>desired_depth\<close>, \<open>note_taking_style\<close>, \<open>include_examples\<close> and
  \<open>include_analogies\<close>.
\<close>

theorem infer_defaults_frame:
  "(\<forall>k v. map_of params k = Some v \<longrightarrow> map_of (infer_defaults params tool ctx) k = Some v)
   \<and> (\<forall>k. k \<notin> set default_targets \<longrightarrow>
          map_of (infer_defaults params tool ctx) k = map_of params k)"
  using infer_defaults_present infer_defaults_untouched by blast

text \<open>A witness: a level-9 user, \<open>difficulty\<close> present as \<^verbatim>\<open>None\<close> stays so, \<open>topic\<close> is
  untouched.\<close>

theorem infer_defaults_frame_witness:
  "map_of [(''topic'', JStr ''x''), (''difficulty'', JNull)] ''difficulty'' = Some JNull
   \<and> map_of (infer_defaults [(''topic'', JStr ''x''), (''difficulty'', JNull)]
         ''flashcard_generator'' [(''mastery_level_summary'', ''Level 9 expert'')]) ''difficulty''
       = Some JNull
   \<and> ''topic'' \<notin> set default_targets
   \<and> map_of (infer_defaults [(''topic'', JStr ''x''), (''difficulty'', JNull)]
         ''flashcard_generator'' [(''mastery_level_summary'', ''Level 9 expert'')]) ''topic''
       = Some (JStr ''x'')"
  using infer_defaults_frame[of "[(''topic'', JStr ''x''), (''difficulty'', JNull)]"
      "''flashcard_generator''" "[(''mastery_level_summary'', ''Level 9 expert'')]"]
  by (simp add: default_targets_def)

section \<open>The mastery level in the second defaulting pass\<close>

text \<open>A string that \<^verbatim>\<open>int()\<close> accepts holds digits, underscores and a sign only, so a
  token that ends with a colon is refused.\<close>

lemma int_digits_chars:
  "int_digits r p = Some ds \<Longrightarrow> \<forall>c\<in>set r. is_digit c \<or> c = CHR ''_''"
  by (induction r p arbitrary: ds rule: int_digits.induct) (auto split: if_splits)

lemma py_strip_snoc:
  "\<not> is_space c \<Longrightarrow> py_strip (t @ [c]) = dropWhile is_space t @ [c]"
  by (simp add: py_strip_def dropWhile_append3)

lemma colon_facts:
  "\<not> is_space (CHR '':'')" "\<not> is_digit (CHR '':'')" "CHR '':'' \<noteq> CHR ''_''"
  by (simp_all add: is_space_def is_digit_def code_def)

lemma py_int_str_chars:
  assumes "py_int_str s = Some n"
  shows "\<forall>c\<in>set (py_strip s). is_digit c \<or> c = CHR ''_'' \<or> c = CHR ''-'' \<or> c = CHR ''+''"
proof (cases "take 1 (py_strip s) = ''-'' \<or> take 1 (py_strip s) = ''+''")
  case True
  then obtain ds where "int_digits (drop 1 (py_strip s)) False = Some ds"
    using assms by (auto simp: py_int_str_def Let_def split: option.splits)
  then have "\<forall>c\<in>set (drop 1 (py_strip s)). is_digit c \<or> c = CHR ''_''"
    by (rule int_digits_chars)
  moreover have "set (py_strip s) = set (take 1 (py_strip s)) \<union> set (drop 1 (py_strip s))"
    by (metis append_take_drop_id set_append)
  ultimately show ?thesis using True by auto
next
  case False
  then obtain ds where "int_digits (py_strip s) False = Some ds"
    using assms by (auto simp: py_int_str_def Let_def split: option.splits)
  then have "\<forall>c\<in>set (py_strip s). is_digit c \<or> c = CHR ''_''"
    by (rule int_digits_chars)
  then show ?thesis by blast
qed

lemma py_int_str_colon:
  assumes "tok \<noteq> []" "last tok = CHR '':''"
  shows "py_int_str tok = None"
proof (cases "py_int_str tok")
  case None then show ?thesis .
next
  case (Some n)
  obtain t where tok: "tok = t @ [CHR '':'']"
    using assms by (metis append_butlast_last_id)
  have "CHR '':'' \<in> set (py_strip tok)"
    by (simp add: tok py_strip_snoc colon_facts)
  with py_int_str_chars[OF Some] colon_facts show ?thesis by auto
qed


lemma split_mastery_level_token:
  assumes "map_of ctx ''mastery_level_summary'' = Some s" "py_split s = w # tok # rest"
  shows "split_mastery_level ctx = (case py_int_str tok of None \<Rightarrow> 4 | Some n \<Rightarrow> n)"
  using assms by (simp add: split_mastery_level_def ctx_get_def)

text \<open>
  Claim C10. In \<^verbatim>\<open>_infer_defaults\<close> the level is the integer value of the second
  whitespace-separated token of \<open>mastery_level_summary\<close>. When that token is no integer
  literal, as is every token that ends with a colon (the format \<open>Level N: ...\<close>), the
  level is 4 whatever the summary states, and the pass offers the middle tier:
  \<open>difficulty\<close> defaults to \<open>medium\<close> and \<open>desired_depth\<close> to \<open>intermediate\<close>.
\<close>

theorem split_mastery_level_second_token:
  assumes "map_of ctx ''mastery_level_summary'' = Some s" and "py_split s = w # tok # rest"
  shows "(\<forall>n. py_int_str tok = Some n \<longrightarrow> split_mastery_level ctx = n)
       \<and> (tok \<noteq> [] \<and> last tok = CHR '':'' \<longrightarrow> py_int_str tok = None)
       \<and> (py_int_str tok = None \<longrightarrow>
            split_mastery_level ctx = 4
            \<and> infer_defaults params ''flashcard_generator'' ctx
                = setdefault ''difficulty'' (JStr ''medium'') (setdefault ''count'' (JInt 5) params)
            \<and> infer_defaults params ''concept_explainer'' ctx
                = setdefault ''include_examples'' (JBool True)
                    (setdefault ''desired_depth'' (JStr ''intermediate'') params))"
proof -
  have lvl: "split_mastery_level ctx = (case py_int_str tok of None \<Rightarrow> 4 | Some n \<Rightarrow> n)"
    using assms by (rule split_mastery_level_token)
  have a: "\<forall>n. py_int_str tok = Some n \<longrightarrow> split_mastery_level ctx = n"
    by (simp add: lvl)
  have b: "tok \<noteq> [] \<and> last tok = CHR '':'' \<longrightarrow> py_int_str tok = None"
    using py_int_str_colon by blast
  have c: "py_int_str tok = None \<longrightarrow>
            split_mastery_level ctx = 4
            \<and> infer_defaults params ''flashcard_generator'' ctx
                = setdefault ''difficulty'' (JStr ''medium'') (setdefault ''count'' (JInt 5) params)
            \<and> infer_defaults params ''concept_explainer'' ctx
                = setdefault ''include_examples'' (JBool True)
                    (setdefault ''desired_depth'' (JStr ''intermediate'') params)"
    by (simp add: lvl infer_defaults_flashcard infer_defaults_concept)
  show ?thesis using a b c by blast
qed

text \<open>A witness: the summary states level 8, the second token is \<open>8:\<close>, and the pass
  reads level 4.\<close>

theorem split_mastery_level_second_token_witness:
  "py_split ''Level 8: Advanced learner'' = [''Level'', ''8:'', ''Advanced'', ''learner'']
   \<and> get_mastery_level_int [(''mastery_level_summary'', ''Level 8: Advanced learner'')] = 8
   \<and> split_mastery_level [(''mastery_level_summary'', ''Level 8: Advanced learner'')] = 4
   \<and> infer_defaults [] ''flashcard_generator''
         [(''mastery_level_summary'', ''Level 8: Advanced learner'')]
       = [(''count'', JInt 5), (''difficulty'', JStr ''medium'')]
   \<and> infer_defaults [] ''concept_explainer''
         [(''mastery_level_summary'', ''Level 8: Advanced learner'')]
       = [(''desired_depth'', JStr ''intermediate''), (''include_examples'', JBool True)]"
proof -
  have h1: "map_of [(''mastery_level_summary'', ''Level 8: Advanced learner'')]
      ''mastery_level_summary'' = Some ''Level 8: Advanced learner''"
    by simp
  have h2: "py_split ''Level 8: Advanced learner'' = ''Level'' # ''8:'' # [''Advanced'', ''learner'']"
    by code_simp
  have h3: "''8:'' \<noteq> [] \<and> last ''8:'' = CHR '':''"
    by simp
  have h4: "get_mastery_level_int [(''mastery_level_summary'', ''Level 8: Advanced learner'')] = 8"
    by code_simp
  show ?thesis
    using split_mastery_level_second_token[OF h1 h2, of "[]"] h2 h3 h4
    by (simp add: setdefault_def dict_set_def)
qed

text \<open>
  Claim C3 at two inputs. The inference of \<^verbatim>\<open>_infer_missing_parameters\<close> reads the
  first digit run and maps level 8 to \<open>hard\<close> and level 2 to \<open>basic\<close>; on the same
  user context \<^verbatim>\<open>_infer_defaults\<close> offers \<open>medium\<close> and \<open>intermediate\<close>.
\<close>

theorem mastery_tier_layers_diverge:
  "get_mastery_level_int [(''mastery_level_summary'', ''Level 8: Advanced learner'')] = 8
   \<and> map_of (infer_missing_parameters ''flashcard_generator'' [''difficulty''] ''quiz me on limits''
         [] [(''mastery_level_summary'', ''Level 8: Advanced learner'')] []) ''difficulty''
       = Some (JStr ''hard'')
   \<and> map_of (infer_defaults [] ''flashcard_generator''
         [(''mastery_level_summary'', ''Level 8: Advanced learner'')]) ''difficulty''
       = Some (JStr ''medium'')
   \<and> map_of (infer_missing_parameters ''concept_explainer'' [''desired_depth''] ''explain limits''
         [] [(''mastery_level_summary'', ''Level 2: Beginner'')] []) ''desired_depth''
       = Some (JStr ''basic'')
   \<and> map_of (infer_defaults [] ''concept_explainer''
         [(''mastery_level_summary'', ''Level 2: Beginner'')]) ''desired_depth''
       = Some (JStr ''intermediate'')"
  by code_simp

section \<open>Inference of missing parameters\<close>

text \<open>The safety pass changes no value but \<^verbatim>\<open>None\<close>, and a loop over the missing keys
  leaves a key with the value its own step gives it when no other step changes that
  value.\<close>

lemma map_of_final_safety:
  "map_of (final_safety tool msg d) k = map_option (safe_value tool msg k) (map_of d k)"
  unfolding final_safety_def by (induction d) auto

lemma final_safety_keeps:
  "map_of d k = Some v \<Longrightarrow> v \<noteq> JNull \<Longrightarrow> map_of (final_safety tool msg d) k = Some v"
  by (simp add: map_of_final_safety safe_value_def)

lemma foldl_keeps:
  assumes keep: "\<And>f k'. map_of f k = Some v \<Longrightarrow> map_of (F f k') k = Some v"
  shows "map_of f k = Some v \<Longrightarrow> map_of (foldl F f ms) k = Some v"
  by (induction ms arbitrary: f) (simp_all add: keep)

lemma foldl_fills:
  assumes step: "\<And>f. map_of (F f k) k = Some v"
    and keep: "\<And>f k'. map_of f k = Some v \<Longrightarrow> map_of (F f k') k = Some v"
  shows "k \<in> set ms \<Longrightarrow> map_of (foldl F f ms) k = Some v"
proof (induction ms arbitrary: f)
  case Nil
  then show ?case by simp
next
  case (Cons m ms)
  show ?case
  proof (cases "k = m")
    case True
    then show ?thesis using foldl_keeps[of k v F, OF keep] step by simp
  next
    case False
    then show ?thesis using Cons by simp
  qed
qed

lemma note_style_inferred:
  assumes "''note_taking_style'' \<in> set missing"
  shows "map_of (infer_missing_parameters ''note_maker'' missing msg hist ctx params) ''note_taking_style''
         = Some (JStr (if visual ctx then ''structured'' else ''outline''))"
proof -
  have "map_of (foldl (fill_note_maker (extract_candidates_for_concept msg) msg ctx) params missing)
          ''note_taking_style'' = Some (JStr (if visual ctx then ''structured'' else ''outline''))"
    using assms
    by (rule foldl_fills[rotated 2])
       (auto simp: fill_note_maker_def Let_def map_of_dict_set visual_def)
  then show ?thesis
    by (simp add: infer_missing_parameters_def Let_def final_safety_keeps)
qed

lemma analogies_inferred:
  assumes "''include_analogies'' \<in> set missing"
  shows "map_of (infer_missing_parameters ''note_maker'' missing msg hist ctx params) ''include_analogies''
         = Some (JBool (visual ctx))"
proof -
  have "map_of (foldl (fill_note_maker (extract_candidates_for_concept msg) msg ctx) params missing)
          ''include_analogies'' = Some (JBool (visual ctx))"
    using assms
    by (rule foldl_fills[rotated 2])
       (auto simp: fill_note_maker_def Let_def map_of_dict_set visual_def)
  then show ?thesis
    by (simp add: infer_missing_parameters_def Let_def final_safety_keeps)
qed

lemma note_style_defaulted:
  assumes "map_of params ''note_taking_style'' = None"
  shows "map_of (infer_defaults params ''note_maker'' ctx) ''note_taking_style''
         = Some (JStr (if visual ctx then ''structured'' else ''outline''))"
  using assms
  by (simp add: infer_defaults_note_maker visual_def setdefault_other setdefault_absent dict_get_def)

lemma analogies_defaulted:
  assumes "map_of params ''include_analogies'' = None"
  shows "map_of (infer_defaults params ''note_maker'' ctx) ''include_analogies''
         = Some (JBool (visual ctx))"
  using assms
  by (simp add: infer_defaults_note_maker visual_def setdefault_other setdefault_absent)


text \<open>
  Claim C4. For a user whose \<open>preferred_teaching_style\<close> is \<open>visual\<close> in any letter
  case, the defaulting for \<open>note_maker\<close> gives \<open>note_taking_style\<close> the value
  \<open>structured\<close> and \<open>include_analogies\<close> the value true; for every other style, also
  an absent one, it gives \<open>outline\<close> and false. This holds in both layers: in
  \<^verbatim>\<open>_infer_missing_parameters\<close> for a field among the missing ones, and in
  \<^verbatim>\<open>_infer_defaults\<close> for a field that is absent.
\<close>

theorem note_maker_style_defaults:
  "(''note_taking_style'' \<in> set missing \<longrightarrow>
      map_of (infer_missing_parameters ''note_maker'' missing msg hist ctx params) ''note_taking_style''
        = Some (JStr (if visual ctx then ''structured'' else ''outline'')))
   \<and> (''include_analogies'' \<in> set missing \<longrightarrow>
      map_of (infer_missing_parameters ''note_maker'' missing msg hist ctx params) ''include_analogies''
        = Some (JBool (visual ctx)))
   \<and> (map_of params' ''note_taking_style'' = None \<longrightarrow>
      map_of (infer_defaults params' ''note_maker'' ctx) ''note_taking_style''
        = Some (JStr (if visual ctx then ''structured'' else ''outline'')))
   \<and> (map_of params' ''include_analogies'' = None \<longrightarrow>
      map_of (infer_defaults params' ''note_maker'' ctx) ''include_analogies''
        = Some (JBool (visual ctx)))"
  using note_style_inferred analogies_inferred note_style_defaulted analogies_defaulted
  by blast

text \<open>A witness: a visual learner in mixed case, and an auditory one.\<close>

theorem note_maker_style_defaults_witness:
  "visual [(''preferred_teaching_style'', ''ViSuAL'')]
   \<and> map_of (infer_missing_parameters ''note_maker'' [''note_taking_style'', ''include_analogies'']
         ''notes on cells'' [] [(''preferred_teaching_style'', ''ViSuAL'')] []) ''note_taking_style''
       = Some (JStr ''structured'')
   \<and> map_of (infer_missing_parameters ''note_maker'' [''note_taking_style'', ''include_analogies'']
         ''notes on cells'' [] [(''preferred_teaching_style'', ''ViSuAL'')] []) ''include_analogies''
       = Some (JBool True)
   \<and> map_of (infer_defaults [(''topic'', JStr ''cells'')] ''note_maker''
         [(''preferred_teaching_style'', ''ViSuAL'')]) ''note_taking_style''
       = Some (JStr ''structured'')
   \<and> map_of (infer_defaults [(''topic'', JStr ''cells'')] ''note_maker''
         [(''preferred_teaching_style'', ''ViSuAL'')]) ''include_analogies''
       = Some (JBool True)
   \<and> \<not> visual [(''preferred_teaching_style'', ''auditory'')]
   \<and> map_of (infer_defaults [(''topic'', JStr ''cells'')] ''note_maker''
         [(''preferred_teaching_style'', ''auditory'')]) ''note_taking_style''
       = Some (JStr ''outline'')
   \<and> map_of (infer_defaults [(''topic'', JStr ''cells'')] ''note_maker''
         [(''preferred_teaching_style'', ''auditory'')]) ''include_analogies''
       = Some (JBool False)"
proof -
  have v: "visual [(''preferred_teaching_style'', ''ViSuAL'')]"
    by code_simp
  have a: "\<not> visual [(''preferred_teaching_style'', ''auditory'')]"
    by code_simp
  show ?thesis
    using v a
      note_maker_style_defaults[of "[''note_taking_style'', ''include_analogies'']"
        "''notes on cells''" "[]" "[(''preferred_teaching_style'', ''ViSuAL'')]" "[]"
        "[(''topic'', JStr ''cells'')]"]
      note_maker_style_defaults[of "[]" "[]" "[]" "[(''preferred_teaching_style'', ''auditory'')]"
        "[]" "[(''topic'', JStr ''cells'')]"]
    by simp
qed

section \<open>The decision and the dispatch\<close>

lemma get_tool_decision_unknown:
  assumes "extract_first_json loads raw = Inr (JObj obj)"
    and "map_of obj ''tool'' = Some (JStr t)"
    and "map_of obj ''parameters'' = Some pv"
    and "map_of TOOL_PARAM_SCHEMAS t = None"
  shows "get_tool_decision loads (Inr raw) msg hist ctx = Inl UnknownTool"
  using assms by (simp add: get_tool_decision_def)

text \<open>
  Claim C5. When the model's decision names a tool that is no key of
  \<^verbatim>\<open>TOOL_PARAM_SCHEMAS\<close>, \<^verbatim>\<open>get_tool_decision\<close> fails with the unknown-tool error
  whatever the decision's parameters are, so before they are looked at, inferred or
  validated, and the orchestrator makes no call to the dispatcher.
\<close>

theorem unknown_tool_rejected:
  assumes "extract_first_json loads raw = Inr (JObj obj)"
    and "map_of obj ''tool'' = Some (JStr t)"
    and "map_of obj ''parameters'' = Some pv"
    and "map_of TOOL_PARAM_SCHEMAS t = None"
  shows "get_tool_decision loads (Inr raw) msg hist ctx = Inl UnknownTool
       \<and> orchestrate_with_gemini loads fmt post (Inr raw) msg hist ctx
           = \<lparr>dispatched = [], outcome = Inl UnknownTool\<rparr>"
  using get_tool_decision_unknown[OF assms]
  by (simp add: orchestrate_with_gemini_def prepare_dispatch_def)

text \<open>A witness: the tool \<open>quiz_maker\<close>, with parameters that are not even an object.\<close>

theorem unknown_tool_rejected_witness:
  "extract_first_json json_loads ''Use this: {\"tool\": \"quiz_maker\", \"parameters\": 5}''
     = Inr (JObj [(''tool'', JStr ''quiz_maker''), (''parameters'', JInt 5)])
   \<and> map_of TOOL_PARAM_SCHEMAS ''quiz_maker'' = None
   \<and> get_tool_decision json_loads
         (Inr ''Use this: {\"tool\": \"quiz_maker\", \"parameters\": 5}'') ''quiz me'' [] []
       = Inl UnknownTool
   \<and> orchestrate_with_gemini json_loads (\<lambda>v. []) (\<lambda>e p. Inr JNull)
         (Inr ''Use this: {\"tool\": \"quiz_maker\", \"parameters\": 5}'') ''quiz me'' [] []
       = \<lparr>dispatched = [], outcome = Inl UnknownTool\<rparr>"
proof -
  have h1: "extract_first_json json_loads ''Use this: {\"tool\": \"quiz_maker\", \"parameters\": 5}''
     = Inr (JObj [(''tool'', JStr ''quiz_maker''), (''parameters'', JInt 5)])"
    by code_simp
  have h2: "map_of [(''tool'', JStr ''quiz_maker''), (''parameters'', JInt 5)] ''tool''
     = Some (JStr ''quiz_maker'')"
    by simp
  have h3: "map_of [(''tool'', JStr ''quiz_maker''), (''parameters'', JInt 5)] ''parameters''
     = Some (JInt 5)"
    by simp
  have h4: "map_of TOOL_PARAM_SCHEMAS ''quiz_maker'' = None"
    by code_simp
  show ?thesis
    using unknown_tool_rejected[OF h1 h2 h3 h4, of "''quiz me''" "[]" "[]" "\<lambda>v. []" "\<lambda>e p. Inr JNull"]
      h1 h4
    by simp
qed

text \<open>A decision is returned, and a dispatch prepared, only after the validator accepted
  the parameters.\<close>

lemma validate_Inr: "(validate inst sch = Inr u) = schema_ok inst sch"
  by (simp add: validate_def)

lemma get_tool_decision_valid:
  assumes "get_tool_decision loads ask msg hist ctx = Inr d"
  shows "\<exists>sch. map_of TOOL_PARAM_SCHEMAS (d_tool d) = Some sch \<and> schema_ok (d_parameters d) sch"
  using assms
  by (auto simp: get_tool_decision_def Let_def validate_def
           split: sum.splits json.splits option.splits if_splits)


lemma prepare_dispatch_valid:
  assumes "prepare_dispatch loads ask msg hist ctx = Inr d"
  shows "\<exists>sch. map_of TOOL_PARAM_SCHEMAS (d_tool d) = Some sch
           \<and> schema_ok (tool_scoped sch (d_parameters d)) sch"
  using assms
  by (auto simp: prepare_dispatch_def Let_def validate_def
           split: sum.splits json.splits option.splits if_splits)

lemma dispatched_valid:
  assumes "(t, ps) \<in> set (dispatched (orchestrate_with_gemini loads fmt post ask msg hist ctx))"
  shows "\<exists>sch. map_of TOOL_PARAM_SCHEMAS t = Some sch \<and> schema_ok (tool_scoped sch ps) sch"
proof (cases "prepare_dispatch loads ask msg hist ctx")
  case (Inl e)
  then show ?thesis using assms by (simp add: orchestrate_with_gemini_def)
next
  case (Inr d)
  then have "t = d_tool d" "ps = d_parameters d"
    using assms by (simp_all add: orchestrate_with_gemini_def)
  then show ?thesis using prepare_dispatch_valid[OF Inr] by simp
qed

lemma inference_failure_aborts:
  assumes "extract_first_json loads raw = Inr (JObj obj)"
    and "map_of obj ''tool'' = Some (JStr t)"
    and "map_of obj ''parameters'' = Some (JObj params)"
    and "map_of TOOL_PARAM_SCHEMAS t = Some sch"
    and "filter (\<lambda>k. map_of params k = None) (required sch) \<noteq> []"
    and "\<not> schema_ok (infer_missing_parameters t
            (filter (\<lambda>k. map_of params k = None) (required sch)) msg hist ctx params) sch"
  shows "orchestrate_with_gemini loads fmt post (Inr raw) msg hist ctx
           = \<lparr>dispatched = [], outcome = Inl SchemaViolation\<rparr>"
proof -
  have "get_tool_decision loads (Inr raw) msg hist ctx = Inl SchemaViolation"
    using assms by (simp add: get_tool_decision_def Let_def validate_def)
  then show ?thesis
    by (simp add: orchestrate_with_gemini_def prepare_dispatch_def)
qed


text \<open>
  Claim C6. On every run, the parameters of every call to the dispatcher, restricted
  to the fields of the chosen tool's schema, satisfy that schema: they were validated
  after inference and after the merge and the second defaulting pass. Every decision
  \<^verbatim>\<open>get_tool_decision\<close> returns satisfies its tool's schema, inferred or not. And when
  the parameters still violate the schema after inference, the run ends with the
  validation error and no call to the dispatcher.
\<close>

theorem dispatch_only_after_validation:
  "(\<forall>(t, ps) \<in> set (dispatched (orchestrate_with_gemini loads fmt post ask msg hist ctx)).
      \<exists>sch. map_of TOOL_PARAM_SCHEMAS t = Some sch \<and> schema_ok (tool_scoped sch ps) sch)
   \<and> (\<forall>d. get_tool_decision loads ask msg hist ctx = Inr d \<longrightarrow>
         (\<exists>sch. map_of TOOL_PARAM_SCHEMAS (d_tool d) = Some sch
                \<and> schema_ok (d_parameters d) sch))
   \<and> (\<forall>raw obj t params sch.
         ask = Inr raw \<and> extract_first_json loads raw = Inr (JObj obj)
         \<and> map_of obj ''tool'' = Some (JStr t)
         \<and> map_of obj ''parameters'' = Some (JObj params)
         \<and> map_of TOOL_PARAM_SCHEMAS t = Some sch
         \<and> filter (\<lambda>k. map_of params k = None) (required sch) \<noteq> []
         \<and> \<not> schema_ok (infer_missing_parameters t
               (filter (\<lambda>k. map_of params k = None) (required sch)) msg hist ctx params) sch
         \<longrightarrow> orchestrate_with_gemini loads fmt post ask msg hist ctx
               = \<lparr>dispatched = [], outcome = Inl SchemaViolation\<rparr>)"
proof (intro conjI)
  show "\<forall>(t, ps) \<in> set (dispatched (orchestrate_with_gemini loads fmt post ask msg hist ctx)).
      \<exists>sch. map_of TOOL_PARAM_SCHEMAS t = Some sch \<and> schema_ok (tool_scoped sch ps) sch"
    using dispatched_valid by blast
  show "\<forall>d. get_tool_decision loads ask msg hist ctx = Inr d \<longrightarrow>
         (\<exists>sch. map_of TOOL_PARAM_SCHEMAS (d_tool d) = Some sch
                \<and> schema_ok (d_parameters d) sch)"
    using get_tool_decision_valid by blast
  show "\<forall>raw obj t params sch.
         ask = Inr raw \<and> extract_first_json loads raw = Inr (JObj obj)
         \<and> map_of obj ''tool'' = Some (JStr t)
         \<and> map_of obj ''parameters'' = Some (JObj params)
         \<and> map_of TOOL_PARAM_SCHEMAS t = Some sch
         \<and> filter (\<lambda>k. map_of params k = None) (required sch) \<noteq> []
         \<and> \<not> schema_ok (infer_missing_parameters t
               (filter (\<lambda>k. map_of params k = None) (required sch)) msg hist ctx params) sch
         \<longrightarrow> orchestrate_with_gemini loads fmt post ask msg hist ctx
               = \<lparr>dispatched = [], outcome = Inl SchemaViolation\<rparr>"
    using inference_failure_aborts by blast
qed

text \<open>A witness: a run that dispatches, and a run whose count of 100 inference cannot
  repair.\<close>

theorem dispatch_only_after_validation_witness:
  "dispatched (orchestrate_with_gemini json_loads (\<lambda>v. []) (\<lambda>e p. Inl ModelUnavailable)
     (Inr ''{\"tool\":\"flashcard_generator\",\"parameters\":{\"topic\":\"derivatives\"}}'')
     ''I need practice problems on derivatives'' []
     [(''mastery_level_summary'', ''Level 4: Building foundational knowledge'')])
   = [(''flashcard_generator'',
       [(''topic'', JStr ''derivatives''), (''count'', JInt 5), (''difficulty'', JStr ''medium''),
        (''subject'', JStr ''derivatives''),
        (''user_info'', JObj [(''mastery_level_summary'',
            JStr ''Level 4: Building foundational knowledge'')]),
        (''chat_history'', JArr [])])]
   \<and> (\<exists>sch. map_of TOOL_PARAM_SCHEMAS ''flashcard_generator'' = Some sch
         \<and> schema_ok (tool_scoped sch
               [(''topic'', JStr ''derivatives''), (''count'', JInt 5), (''difficulty'', JStr ''medium''),
                (''subject'', JStr ''derivatives''),
                (''user_info'', JObj [(''mastery_level_summary'',
                    JStr ''Level 4: Building foundational knowledge'')]),
                (''chat_history'', JArr [])]) sch)
   \<and> \<not> schema_ok (infer_missing_parameters ''flashcard_generator''
               (filter (\<lambda>k. map_of [(''count'', JInt 100)] k = None)
                 (required flashcard_generator_schema))
               ''more cards'' [] [] [(''count'', JInt 100)]) flashcard_generator_schema
   \<and> orchestrate_with_gemini json_loads (\<lambda>v. []) (\<lambda>e p. Inl ModelUnavailable)
         (Inr ''{\"tool\":\"flashcard_generator\",\"parameters\":{\"count\": 100}}'')
         ''more cards'' [] []
       = \<lparr>dispatched = [], outcome = Inl SchemaViolation\<rparr>"
proof -
  have e1: "dispatched (orchestrate_with_gemini json_loads (\<lambda>v. []) (\<lambda>e p. Inl ModelUnavailable)
     (Inr ''{\"tool\":\"flashcard_generator\",\"parameters\":{\"topic\":\"derivatives\"}}'')
     ''I need practice problems on derivatives'' []
     [(''mastery_level_summary'', ''Level 4: Building foundational knowledge'')])
   = [(''flashcard_generator'',
       [(''topic'', JStr ''derivatives''), (''count'', JInt 5), (''difficulty'', JStr ''medium''),
        (''subject'', JStr ''derivatives''),
        (''user_info'', JObj [(''mastery_level_summary'',
            JStr ''Level 4: Building foundational knowledge'')]),
        (''chat_history'', JArr [])])]"
    by code_simp
  have e2: "extract_first_json json_loads
       ''{\"tool\":\"flashcard_generator\",\"parameters\":{\"count\": 100}}''
     = Inr (JObj [(''tool'', JStr ''flashcard_generator''),
                  (''parameters'', JObj [(''count'', JInt 100)])])"
    by code_simp
  have e3: "map_of TOOL_PARAM_SCHEMAS ''flashcard_generator'' = Some flashcard_generator_schema"
    by (simp add: TOOL_PARAM_SCHEMAS_def)
  have e4: "filter (\<lambda>k. map_of [(''count'', JInt 100)] k = None)
      (required flashcard_generator_schema) \<noteq> []"
    by code_simp
  have e5: "\<not> schema_ok (infer_missing_parameters ''flashcard_generator''
               (filter (\<lambda>k. map_of [(''count'', JInt 100)] k = None)
                 (required flashcard_generator_schema))
               ''more cards'' [] [] [(''count'', JInt 100)]) flashcard_generator_schema"
    by code_simp
  note thm1 = dispatch_only_after_validation[of json_loads "\<lambda>v. []" "\<lambda>e p. Inl ModelUnavailable"
      "Inr ''{\"tool\":\"flashcard_generator\",\"parameters\":{\"topic\":\"derivatives\"}}''"
      "''I need practice problems on derivatives''" "[]"
      "[(''mastery_level_summary'', ''Level 4: Building foundational knowledge'')]"]
  note thm2 = dispatch_only_after_validation[of json_loads "\<lambda>v. []" "\<lambda>e p. Inl ModelUnavailable"
      "Inr ''{\"tool\":\"flashcard_generator\",\"parameters\":{\"count\": 100}}''"
      "''more cards''" "[]" "[]"]
  have a: "\<exists>sch. map_of TOOL_PARAM_SCHEMAS ''flashcard_generator'' = Some sch
         \<and> schema_ok (tool_scoped sch
               [(''topic'', JStr ''derivatives''), (''count'', JInt 5), (''difficulty'', JStr ''medium''),
                (''subject'', JStr ''derivatives''),
                (''user_info'', JObj [(''mastery_level_summary'',
                    JStr ''Level 4: Building foundational knowledge'')]),
                (''chat_history'', JArr [])]) sch"
    using thm1 unfolding e1 by simp
  have b: "orchestrate_with_gemini json_loads (\<lambda>v. []) (\<lambda>e p. Inl ModelUnavailable)
         (Inr ''{\"tool\":\"flashcard_generator\",\"parameters\":{\"count\": 100}}'')
         ''more cards'' [] []
       = \<lparr>dispatched = [], outcome = Inl SchemaViolation\<rparr>"
    using thm2 e2 e3 e4 e5 by simp
  show ?thesis using e1 a e5 b by blast
qed

end
